theory Spec2Isabelle
  imports Complex_Main
begin

section \<open>Data model\<close>

text \<open>
  The module \<^verbatim>\<open>mys_goods_tool/exchange_mode.py\<close> imports its data classes from
  \<^verbatim>\<open>data_model\<close> and \<^verbatim>\<open>user_data\<close>. Only the fields the module reads are
  modelled.

  Naming: an Isabelle identifier cannot begin with an underscore, so the module-level
  \<^verbatim>\<open>_on_fail\<close>, \<^verbatim>\<open>_connection_test\<close> and the method \<^verbatim>\<open>_on_button_pressed\<close> are called
  \<open>on_fail\<close>, \<open>connection_test\<close> and \<open>on_button_pressed\<close>; the two closures of
  \<^verbatim>\<open>exchange_mode_simple\<close> are \<open>simple_on_success\<close> and \<open>simple_on_fail\<close>.
\<close>

text \<open>
  Modelled from the spec: the class \<^verbatim>\<open>ExchangeStatus\<close> (\<^verbatim>\<open>data_model.py\<close>, not part
  of the sources at hand). The nine boolean flags are the attributes that \<^verbatim>\<open>_on_fail\<close>
  reads, in the order it reads them.
\<close>

record ExchangeStatus =
  network_error :: bool
  missing_stoken :: bool
  missing_mid :: bool
  missing_address :: bool
  missing_game_uid :: bool
  unsupported_game :: bool
  failed_getting_game_record :: bool
  init_required :: bool
  account_not_found :: bool

text \<open>
  Modelled from the spec: \<^verbatim>\<open>ExchangePlan\<close>, \<^verbatim>\<open>ExchangeResult\<close> and the objects they
  refer to (\<^verbatim>\<open>user_data.py\<close>, not part of the sources at hand). \<^verbatim>\<open>plan.good.time\<close> is
  the release time as a POSIX timestamp in seconds; \<^verbatim>\<open>result.result\<close> is the success
  flag of an exchange and \<^verbatim>\<open>result.plan\<close> the back-reference to the plan.
\<close>

record UserAccount =
  bbs_uid :: string

record Good =
  general_name :: string
  time :: int
  time_text :: string

record ExchangePlan =
  good :: Good
  account :: UserAccount

record ExchangeResult =
  result :: bool
  plan :: ExchangePlan

section \<open>The flag chain of \<^verbatim>\<open>_on_fail\<close>\<close>

text \<open>
  The ten texts that \<^verbatim>\<open>_on_fail\<close> assigns to its local variable \<^verbatim>\<open>error\<close>, one
  constructor per string literal, in the order of the source (lines 36 to 54):
  network error; in-game good but the cookies lack stoken; in-game good, stoken of
  type v2 and the cookies lack mid; physical good but no delivery address; in-game good
  but no game account UID; game or region not supported; fetching the GameRecord
  failed; exchange task not initialised; account does not exist; unknown error.
\<close>

datatype category =
    cat_network_error
  | cat_missing_stoken
  | cat_missing_mid
  | cat_missing_address
  | cat_missing_game_uid
  | cat_unsupported_game
  | cat_failed_getting_game_record
  | cat_init_required
  | cat_account_not_found
  | cat_unknown

definition on_fail_error :: "ExchangeStatus \<Rightarrow> category" where
  "on_fail_error status =
    (if network_error status then cat_network_error
     else if missing_stoken status then cat_missing_stoken
     else if missing_mid status then cat_missing_mid
     else if missing_address status then cat_missing_address
     else if missing_game_uid status then cat_missing_game_uid
     else if unsupported_game status then cat_unsupported_game
     else if failed_getting_game_record status then cat_failed_getting_game_record
     else if init_required status then cat_init_required
     else if account_not_found status then cat_account_not_found
     else cat_unknown)"

text \<open>
  The classifier in the words of the specification: the flags paired with their
  categories in the fixed priority order, and the first pair whose flag is set decides;
  \<open>unknown\<close> when there is none.
\<close>

definition priority_order :: "((ExchangeStatus \<Rightarrow> bool) \<times> category) list" where
  "priority_order =
    [(network_error, cat_network_error),
     (missing_stoken, cat_missing_stoken),
     (missing_mid, cat_missing_mid),
     (missing_address, cat_missing_address),
     (missing_game_uid, cat_missing_game_uid),
     (unsupported_game, cat_unsupported_game),
     (failed_getting_game_record, cat_failed_getting_game_record),
     (init_required, cat_init_required),
     (account_not_found, cat_account_not_found)]"

definition classify_spec :: "ExchangeStatus \<Rightarrow> category" where
  "classify_spec status =
    (case find (\<lambda>(flag, c). flag status) priority_order of
       Some (flag, c) \<Rightarrow> c
     | None \<Rightarrow> cat_unknown)"

section \<open>Effects, exceptions and callbacks\<close>

text \<open>
  The module acts on the world through the logger, \<^verbatim>\<open>asyncio.sleep\<close>, the exchange
  request, \<^verbatim>\<open>ping3.ping\<close> and the scheduler. A run of a function is the list of
  effects it performed, in order, and how it ended: \<open>Inr\<close> with the value it returned or
  \<open>Inl\<close> with the exception that left it.

  The log texts are Chinese string literals with the interpolated values in between; a
  message is modelled by one constructor per literal, carrying the interpolated values:
  \<^item> \<open>msg_timer_fired name time_text\<close>: line 105, timer fired and exchange begins;
  \<^item> \<open>msg_request_sent name time_text\<close>: line 110, exchange request sent;
  \<^item> \<open>msg_failed_reason uid name error\<close>: line 56, exchange failed with its reason;
  \<^item> \<open>msg_succeeded uid name\<close>: line 130, exchange succeeded;
  \<^item> \<open>msg_failed uid name\<close>: line 133, exchange failed;
  \<^item> \<open>msg_ping_timeout host\<close>, \<open>msg_ping_failed host\<close>, \<open>msg_ping_delay host ms\<close>:
    lines 66, 68 and 70;
  \<^item> \<open>msg_no_plans\<close>, \<open>msg_started\<close>, \<open>msg_stopped\<close>: lines 126, 138 and 142.
\<close>

datatype level = INFO | ERROR

datatype message =
    msg_timer_fired string string
  | msg_request_sent string string
  | msg_failed_reason string string category
  | msg_succeeded string string
  | msg_failed string string
  | msg_ping_timeout string
  | msg_ping_failed string
  | msg_ping_delay string real
  | msg_no_plans
  | msg_started
  | msg_stopped

datatype slot = slot_on_success | slot_on_fail

datatype effect =
    Log level message
  | Sleep real
  | Request ExchangePlan
  | Ping string
  | LoggerAdd
  | SchedulerStart
  | RunForever
  | SchedulerShutdown
  | Invoked slot ExchangeStatus "ExchangeResult option"

datatype error =
    AttributeError
  | UnknownTimeZoneError string
  | ExchangeError

type_synonym 'a run = "effect list \<times> (error + 'a)"

text \<open>\<open>after pre r\<close>: the effects \<open>pre\<close> happened, then the run \<open>r\<close>.\<close>

definition after :: "effect list \<Rightarrow> 'a run \<Rightarrow> 'a run" where
  "after pre r = (pre @ fst r, snd r)"

text \<open>
  \<^verbatim>\<open>ExchangeCallback = Callable[[ExchangeStatus, Optional[ExchangeResult]], None]\<close>:
  a callback is any procedure of a status and an optional result.
\<close>

type_synonym ExchangeCallback = "ExchangeStatus \<Rightarrow> ExchangeResult option \<Rightarrow> unit run"

text \<open>
  The three logging callbacks of the module. Each formats its message from
  \<^verbatim>\<open>result.plan.account.bbs_uid\<close> and \<^verbatim>\<open>result.plan.good.general_name\<close> before it
  calls the logger; on \<^verbatim>\<open>None\<close> the attribute access \<^verbatim>\<open>result.plan\<close> raises
  \<^verbatim>\<open>AttributeError\<close> and nothing is logged.
\<close>

definition on_fail :: ExchangeCallback where
  "on_fail status res =
    (let error = on_fail_error status in
     case res of
       None \<Rightarrow> ([], Inl AttributeError)
     | Some r \<Rightarrow>
         ([Log ERROR (msg_failed_reason (bbs_uid (account (plan r)))
                        (general_name (good (plan r))) error)], Inr ()))"

definition simple_on_success :: ExchangeCallback where
  "simple_on_success status res =
    (case res of
       None \<Rightarrow> ([], Inl AttributeError)
     | Some r \<Rightarrow>
         ([Log INFO (msg_succeeded (bbs_uid (account (plan r)))
                       (general_name (good (plan r))))], Inr ()))"

definition simple_on_fail :: ExchangeCallback where
  "simple_on_fail status res =
    (case res of
       None \<Rightarrow> ([], Inl AttributeError)
     | Some r \<Rightarrow>
         ([Log ERROR (msg_failed (bbs_uid (account (plan r)))
                        (general_name (good (plan r))))], Inr ()))"

text \<open>
  A recording callback, as a test double: it does nothing but note that the callback in
  the given slot was invoked, and with which arguments.
\<close>

definition recorder :: "slot \<Rightarrow> ExchangeCallback" where
  "recorder s status res = ([Invoked s status res], Inr ())"

definition invocations :: "effect list \<Rightarrow> effect list" where
  "invocations es = filter (\<lambda>e. case e of Invoked s status res \<Rightarrow> True | _ \<Rightarrow> False) es"

section \<open>Configuration\<close>

text \<open>
  Modelled from the spec: the configuration object \<^verbatim>\<open>conf\<close> and its \<^verbatim>\<open>Preference\<close>
  (\<^verbatim>\<open>user_data.py\<close>, not part of the sources at hand): time zone name, connectivity
  probe toggle and interval, the pair of random-latency bounds, and the list of
  exchange plans. Seconds and milliseconds are Python floats; they are modelled as real
  numbers, so rounding error, overflow and NaN of the float arithmetic are outside the
  model. An optional setting is \<open>None\<close> when it is \<^verbatim>\<open>None\<close> in Python.
\<close>

record Preference =
  timezone :: "string option"
  enable_connection_test :: bool
  connection_test_interval :: "int option"
  exchange_latency :: "real \<times> real"

record Config =
  preference :: Preference
  exchange_plans :: "ExchangePlan list"

text \<open>
  The class attributes \<^verbatim>\<open>Preference.timezone\<close> and
  \<^verbatim>\<open>Preference.connection_test_interval\<close>, the defaults that \<^verbatim>\<open>get_scheduler\<close>
  falls back to. Their values are not in the sources at hand, so they are parameters.
\<close>

record PreferenceDefaults =
  default_timezone :: string
  default_connection_test_interval :: int

section \<open>The dispatch unit\<close>

text \<open>
  \<^verbatim>\<open>random.uniform(a, b)\<close> of the standard library is \<^verbatim>\<open>a + (b - a) * random()\<close>
  with \<^verbatim>\<open>random()\<close> in the half-open interval from 0 to 1. The draw \<open>u\<close> is a parameter.
\<close>

definition uniform :: "real \<Rightarrow> real \<Rightarrow> real \<Rightarrow> real" where
  "uniform a b u = a + (b - a) * u"

text \<open>
  \<^verbatim>\<open>exchange_begin\<close> (lines 95 to 117). \<open>conf\<close> is the module-global configuration
  as it is when the coroutine runs: line 106 reads \<^verbatim>\<open>conf.preference.exchange_latency\<close>
  then. \<open>u\<close> is the random draw and \<open>exchanged\<close> what awaiting \<^verbatim>\<open>good_exchange(plan)\<close>
  gives: the pair of status and optional result, or an exception, which is not caught.
  An \<^verbatim>\<open>ExchangeResult\<close> object defines neither \<^verbatim>\<open>__bool__\<close> nor \<^verbatim>\<open>__len__\<close>, so the
  test \<^verbatim>\<open>if exchange_result\<close> of line 111 is true exactly when the result is not
  \<^verbatim>\<open>None\<close>.
\<close>

definition latency_of :: "Config \<Rightarrow> real \<Rightarrow> real" where
  "latency_of conf u =
    (case exchange_latency (preference conf) of
       (random_x, random_y) \<Rightarrow> uniform random_x random_y u)"

definition exchange_begin ::
  "Config \<Rightarrow> ExchangePlan \<Rightarrow> ExchangeCallback \<Rightarrow> ExchangeCallback \<Rightarrow> real \<Rightarrow>
   (error + ExchangeStatus \<times> ExchangeResult option) \<Rightarrow> unit run" where
  "exchange_begin conf p on_success_cb on_fail_cb u exchanged =
    (let started =
           [Log INFO (msg_timer_fired (general_name (good p)) (time_text (good p))),
            Sleep (latency_of conf u),
            Request p]
     in case exchanged of
          Inl err \<Rightarrow> (started, Inl err)
        | Inr (exchange_status, exchange_result) \<Rightarrow>
            (let sent = started @
                   [Log INFO (msg_request_sent (general_name (good p)) (time_text (good p)))]
             in case exchange_result of
                  Some r \<Rightarrow>
                    (if result r
                     then after sent (on_success_cb exchange_status exchange_result)
                     else after sent (on_fail_cb exchange_status exchange_result))
                | None \<Rightarrow> after sent (on_fail_cb exchange_status exchange_result)))"

section \<open>The connectivity prober\<close>

text \<open>
  \<^verbatim>\<open>ping3.ping(host, unit="ms")\<close> returns \<^verbatim>\<open>None\<close> on a timeout, \<^verbatim>\<open>False\<close> on an
  error, and the delay in milliseconds otherwise. The tests of lines 65 and 67 are
  identity tests (\<^verbatim>\<open>is None\<close>, \<^verbatim>\<open>is False\<close>), so a delay of zero is a delay.
\<close>

datatype ping_result = ping_None | ping_False | ping_ms real

text \<open>
  Python's \<^verbatim>\<open>round(x, 2)\<close>: the nearest multiple of one hundredth, a tie going to the
  even one; on real numbers.
\<close>

definition round_half_even :: "real \<Rightarrow> int" where
  "round_half_even x =
    (let f = \<lfloor>x\<rfloor>; d = x - of_int f
     in if d < 1 / 2 then f
        else if 1 / 2 < d then f + 1
        else if even f then f else f + 1)"

definition py_round2 :: "real \<Rightarrow> real" where
  "py_round2 x = of_int (round_half_even (x * 100)) / 100"

text \<open>
  \<^verbatim>\<open>URL_EXCHANGE\<close> is a constant of \<^verbatim>\<open>api.py\<close>, not part of the sources at hand; the
  hostname that \<^verbatim>\<open>urlparse\<close> finds in it is a parameter. It is \<^verbatim>\<open>None\<close> for a URL
  without a host, and both \<^verbatim>\<open>str\<close> and the f-string print that as the text None.
\<close>

definition str_of_hostname :: "string option \<Rightarrow> string" where
  "str_of_hostname hostname = (case hostname of None \<Rightarrow> ''None'' | Some h \<Rightarrow> h)"

definition connection_test :: "string option \<Rightarrow> ping_result \<Rightarrow> unit run" where
  "connection_test hostname pinged =
    ([Ping (str_of_hostname hostname),
      (case pinged of
         ping_None \<Rightarrow> Log INFO (msg_ping_timeout (str_of_hostname hostname))
       | ping_False \<Rightarrow> Log INFO (msg_ping_failed (str_of_hostname hostname))
       | ping_ms ms \<Rightarrow> Log INFO (msg_ping_delay (str_of_hostname hostname) (py_round2 ms)))],
     Inr ())"

definition observations :: "effect list \<Rightarrow> effect list" where
  "observations es = filter (\<lambda>e. case e of Log l m \<Rightarrow> True | _ \<Rightarrow> False) es"

section \<open>The scheduler\<close>

text \<open>
  The host the program runs on: the UTC offset of its local time zone and the time zone
  database, both in seconds east of UTC. Zones are fixed offsets here; daylight-saving
  transitions are outside the model. An unknown zone name has no entry.
\<close>

record Host =
  local_utcoffset :: int
  zone_utcoffset :: "string \<Rightarrow> int option"

text \<open>
  A naive \<^verbatim>\<open>datetime\<close> is a wall-clock reading without a zone, modelled as the number of
  seconds between 1970-01-01 00:00:00 on that wall clock and the reading.
  \<^verbatim>\<open>datetime.fromtimestamp(ts)\<close> without a \<^verbatim>\<open>tz\<close> argument returns the naive local
  time of the host.
\<close>

definition fromtimestamp :: "Host \<Rightarrow> int \<Rightarrow> int" where
  "fromtimestamp host ts = ts + local_utcoffset host"

datatype trigger = trigger_interval int | trigger_date int

datatype job_func =
    job_connection_test
  | job_exchange_begin ExchangePlan ExchangeCallback ExchangeCallback

datatype job = Job job_func trigger

record scheduler =
  scheduler_timezone :: string
  scheduler_utcoffset :: int
  jobs :: "job list"

definition add_job :: "scheduler \<Rightarrow> job \<Rightarrow> scheduler" where
  "add_job s j = s\<lparr>jobs := jobs s @ [j]\<rparr>"

text \<open>
  \<^verbatim>\<open>get_scheduler\<close> (lines 73 to 92). \<open>conf\<close> is the module-global configuration as
  it is when the function runs. Python's \<^verbatim>\<open>x or y\<close> is \<open>y\<close> when \<open>x\<close> is \<^verbatim>\<open>None\<close>,
  the empty string or zero. \<^verbatim>\<open>scheduler.configure\<close> resolves the zone name and raises
  for an unknown one.
\<close>

definition timezone_or_default :: "PreferenceDefaults \<Rightarrow> Config \<Rightarrow> string" where
  "timezone_or_default defaults conf =
    (case timezone (preference conf) of
       None \<Rightarrow> default_timezone defaults
     | Some z \<Rightarrow> if z = [] then default_timezone defaults else z)"

definition interval_or_default :: "PreferenceDefaults \<Rightarrow> Config \<Rightarrow> int" where
  "interval_or_default defaults conf =
    (case connection_test_interval (preference conf) of
       None \<Rightarrow> default_connection_test_interval defaults
     | Some i \<Rightarrow> if i = 0 then default_connection_test_interval defaults else i)"

definition plan_job :: "Host \<Rightarrow> ExchangeCallback \<Rightarrow> ExchangeCallback \<Rightarrow> ExchangePlan \<Rightarrow> job" where
  "plan_job host on_success_cb on_fail_cb p =
    Job (job_exchange_begin p on_success_cb on_fail_cb)
        (trigger_date (fromtimestamp host (time (good p))))"

definition get_scheduler ::
  "Host \<Rightarrow> PreferenceDefaults \<Rightarrow> Config \<Rightarrow> ExchangeCallback \<Rightarrow> ExchangeCallback \<Rightarrow>
   error + scheduler" where
  "get_scheduler host defaults conf on_success_cb on_fail_cb =
    (let tz = timezone_or_default defaults conf
     in case zone_utcoffset host tz of
          None \<Rightarrow> Inl (UnknownTimeZoneError tz)
        | Some off \<Rightarrow>
            (let s0 = \<lparr>scheduler_timezone = tz, scheduler_utcoffset = off, jobs = []\<rparr>;
                 s1 = (if enable_connection_test (preference conf)
                       then add_job s0 (Job job_connection_test
                              (trigger_interval (interval_or_default defaults conf)))
                       else s0)
             in Inr (foldl (\<lambda>s p. add_job s (plan_job host on_success_cb on_fail_cb p))
                       s1 (exchange_plans conf))))"

text \<open>
  When a date job fires: the scheduler reads a naive \<^verbatim>\<open>run_date\<close> as wall-clock time
  in its own time zone, so the POSIX time of the firing is the reading minus the offset
  of that zone. An interval job has no single firing time.
\<close>

definition fire_time :: "scheduler \<Rightarrow> job \<Rightarrow> int option" where
  "fire_time s j =
    (case j of
       Job f (trigger_date run_date) \<Rightarrow> Some (run_date - scheduler_utcoffset s)
     | Job f (trigger_interval seconds) \<Rightarrow> None)"

definition date_jobs :: "scheduler \<Rightarrow> job list" where
  "date_jobs s =
    filter (\<lambda>j. case j of Job f (trigger_date d) \<Rightarrow> True | Job f (trigger_interval i) \<Rightarrow> False)
      (jobs s)"

text \<open>
  One firing of a job. \<open>conf\<close> is the global configuration as it is at the firing,
  \<open>hostname\<close> the host of \<^verbatim>\<open>URL_EXCHANGE\<close>, and \<open>u\<close>, \<open>exchanged\<close> and \<open>pinged\<close>
  are what the random generator, the exchange call and the ping give.
\<close>

definition run_job ::
  "Config \<Rightarrow> string option \<Rightarrow> real \<Rightarrow> (error + ExchangeStatus \<times> ExchangeResult option) \<Rightarrow>
   ping_result \<Rightarrow> job \<Rightarrow> unit run" where
  "run_job conf hostname u exchanged pinged j =
    (case j of
       Job job_connection_test t \<Rightarrow> connection_test hostname pinged
     | Job (job_exchange_begin p on_success_cb on_fail_cb) t \<Rightarrow>
         exchange_begin conf p on_success_cb on_fail_cb u exchanged)"

text \<open>
  A whole run, as far as the configuration matters: the scheduler is built under
  \<open>conf_build\<close>, and each of its jobs fires under the configuration \<open>conf_later\<close> that
  is visible after \<^verbatim>\<open>get_scheduler\<close> has returned.
\<close>

definition dispatches ::
  "Host \<Rightarrow> PreferenceDefaults \<Rightarrow> Config \<Rightarrow> Config \<Rightarrow> ExchangeCallback \<Rightarrow> ExchangeCallback \<Rightarrow>
   string option \<Rightarrow> real \<Rightarrow> (error + ExchangeStatus \<times> ExchangeResult option) \<Rightarrow>
   ping_result \<Rightarrow> error + unit run list" where
  "dispatches host defaults conf_build conf_later on_success_cb on_fail_cb
      hostname u exchanged pinged =
    (case get_scheduler host defaults conf_build on_success_cb on_fail_cb of
       Inl err \<Rightarrow> Inl err
     | Inr s \<Rightarrow> Inr (map (run_job conf_later hostname u exchanged pinged) (jobs s)))"

section \<open>The headless driver\<close>

text \<open>
  \<^verbatim>\<open>exchange_mode_simple\<close> (lines 120 to 142): the effects of its own statements, the
  scheduler it built if any, and how it ended. \<^verbatim>\<open>run_forever\<close> blocks until a
  \<^verbatim>\<open>KeyboardInterrupt\<close>; \<open>interrupted\<close> tells whether one arrives. Without one the
  function never returns (\<open>Blocked\<close>). An exception of \<^verbatim>\<open>get_scheduler\<close> is raised
  outside the \<^verbatim>\<open>try\<close> block and leaves the function.
\<close>

datatype ending = Returned | Blocked | Raised error

record simple_run =
  effects :: "effect list"
  built :: "scheduler option"
  ending :: ending

definition exchange_mode_simple ::
  "Host \<Rightarrow> PreferenceDefaults \<Rightarrow> Config \<Rightarrow> bool \<Rightarrow> simple_run" where
  "exchange_mode_simple host defaults conf interrupted =
    (if exchange_plans conf = []
     then \<lparr>effects = [LoggerAdd, Log INFO msg_no_plans], built = None, ending = Returned\<rparr>
     else case get_scheduler host defaults conf simple_on_success simple_on_fail of
            Inl err \<Rightarrow> \<lparr>effects = [LoggerAdd], built = None, ending = Raised err\<rparr>
          | Inr s \<Rightarrow>
              (if interrupted
               then \<lparr>effects = [LoggerAdd, SchedulerStart, Log INFO msg_started, RunForever,
                                SchedulerShutdown, Log INFO msg_stopped],
                     built = Some s, ending = Returned\<rparr>
               else \<lparr>effects = [LoggerAdd, SchedulerStart, Log INFO msg_started, RunForever],
                     built = Some s, ending = Blocked\<rparr>))"

section \<open>The interactive view\<close>

text \<open>
  \<^verbatim>\<open>ExchangeModeWarning\<close> shows one of its two texts, \<^verbatim>\<open>ENTER_TEXT\<close> at first (line
  164). Modelled from the spec: \<^verbatim>\<open>ControllableButton\<close> (\<^verbatim>\<open>custom_widget.py\<close>, not part
  of the sources at hand) is a button that is shown when created, and whose \<^verbatim>\<open>hide()\<close>
  and \<^verbatim>\<open>show()\<close> switch its visibility off and on. The class body (lines 196 to 199)
  creates both buttons and hides the exit button.
\<close>

datatype warning = ENTER_TEXT | EXIT_TEXT

datatype view_event = EnterExchangeMode | ExitExchangeMode

record ExchangeModeView =
  button_enter_shown :: bool
  button_exit_shown :: bool
  display_text :: warning

definition initial_view :: ExchangeModeView where
  "initial_view =
    \<lparr>button_enter_shown = True, button_exit_shown = False, display_text = ENTER_TEXT\<rparr>"

text \<open>
  \<^verbatim>\<open>_on_button_pressed\<close> (lines 207 to 218): the new view and the messages posted.
  \<open>button_id\<close> is \<^verbatim>\<open>event.button.id\<close>, which is \<^verbatim>\<open>None\<close> for a button without an id.
\<close>

definition on_button_pressed ::
  "string option \<Rightarrow> ExchangeModeView \<Rightarrow> ExchangeModeView \<times> view_event list" where
  "on_button_pressed button_id v =
    (if button_id = Some ''button-exchange_mode-enter''
     then (v\<lparr>button_enter_shown := False, button_exit_shown := True,
              display_text := EXIT_TEXT\<rparr>, [EnterExchangeMode])
     else if button_id = Some ''button-exchange_mode-exit''
     then (v\<lparr>button_exit_shown := False, button_enter_shown := True,
              display_text := ENTER_TEXT\<rparr>, [ExitExchangeMode])
     else (v, []))"

text \<open>A sequence of button presses: the view after the last and all messages posted.\<close>

fun presses :: "string option list \<Rightarrow> ExchangeModeView \<Rightarrow> ExchangeModeView \<times> view_event list" where
  "presses [] v = (v, [])"
| "presses (b # bs) v =
    (case on_button_pressed b v of
       (v', posted) \<Rightarrow> (case presses bs v' of (v'', posted') \<Rightarrow> (v'', posted @ posted')))"

section \<open>Concrete inputs\<close>

text \<open>Small concrete values on which the theorems below are instantiated.\<close>

definition no_flags :: ExchangeStatus where
  "no_flags =
    \<lparr>network_error = False, missing_stoken = False, missing_mid = False,
     missing_address = False, missing_game_uid = False, unsupported_game = False,
     failed_getting_game_record = False, init_required = False,
     account_not_found = False\<rparr>"

definition plan_a :: ExchangePlan where
  "plan_a =
    \<lparr>good = \<lparr>general_name = ''card'', time = 1700000000, time_text = ''2023-11-15 06:13:20''\<rparr>,
     account = \<lparr>bbs_uid = ''10001''\<rparr>\<rparr>"

definition result_ok :: ExchangeResult where
  "result_ok = \<lparr>result = True, plan = plan_a\<rparr>"

definition result_rejected :: ExchangeResult where
  "result_rejected = \<lparr>result = False, plan = plan_a\<rparr>"

definition conf_a :: Config where
  "conf_a =
    \<lparr>preference =
       \<lparr>timezone = Some ''Asia/Shanghai'', enable_connection_test = True,
        connection_test_interval = Some 30, exchange_latency = (1 / 2, 2)\<rparr>,
     exchange_plans = [plan_a]\<rparr>"

definition conf_b :: Config where
  "conf_b =
    \<lparr>preference =
       \<lparr>timezone = Some ''Asia/Shanghai'', enable_connection_test = True,
        connection_test_interval = Some 30, exchange_latency = (5, 5)\<rparr>,
     exchange_plans = [plan_a]\<rparr>"

definition conf_empty :: Config where
  "conf_empty =
    \<lparr>preference =
       \<lparr>timezone = None, enable_connection_test = False,
        connection_test_interval = None, exchange_latency = (0, 0)\<rparr>,
     exchange_plans = []\<rparr>"

definition defaults_a :: PreferenceDefaults where
  "defaults_a = \<lparr>default_timezone = ''Asia/Shanghai'', default_connection_test_interval = 30\<rparr>"

text \<open>
  Two hosts with the same time zone database (China Standard Time is eight hours east of
  UTC): one whose local zone is UTC, one whose local zone is China Standard Time.
\<close>

definition zones :: "string \<Rightarrow> int option" where
  "zones z =
    (if z = ''Asia/Shanghai'' then Some 28800
     else if z = ''UTC'' then Some 0
     else None)"

definition host_utc :: Host where
  "host_utc = \<lparr>local_utcoffset = 0, zone_utcoffset = zones\<rparr>"

definition host_shanghai :: Host where
  "host_shanghai = \<lparr>local_utcoffset = 28800, zone_utcoffset = zones\<rparr>"

definition conf_c :: Config where
  "conf_c =
    \<lparr>preference =
       \<lparr>timezone = Some ''UTC'', enable_connection_test = False,
        connection_test_interval = None, exchange_latency = (1 / 2, 2)\<rparr>,
     exchange_plans = []\<rparr>"

section \<open>Properties\<close>

text \<open>
  C3. For every status value the flag chain of \<^verbatim>\<open>_on_fail\<close> yields the category of
  the earliest set flag in the order network_error, missing_stoken, missing_mid,
  missing_address, missing_game_uid, unsupported_game, failed_getting_game_record,
  init_required, account_not_found, and \<open>unknown\<close> when no flag is set: it agrees
  with the first-match classifier of the specification on every status.
\<close>

theorem on_fail_error_first_match:
  "on_fail_error status = classify_spec status"
  by (simp add: on_fail_error_def classify_spec_def priority_order_def)

text \<open>
  C1. Every dispatch whose exchange call resolves to a pair of status and result invokes
  exactly one of the two callbacks, exactly once: \<^verbatim>\<open>on_success(status, result)\<close> when
  the result is present and its success flag is true, \<^verbatim>\<open>on_fail(status, result)\<close> in
  every other case (result absent, or present with the flag false). First for arbitrary
  callbacks: the run of \<^verbatim>\<open>exchange_begin\<close> is its own four effects followed by the run
  of the one callback. Then counted with recording callbacks: one invocation is recorded,
  in the right slot and with the arguments of the exchange call.
\<close>

theorem exchange_begin_invokes_exactly_one:
  "exchange_begin conf p on_success_cb on_fail_cb u (Inr (status, res)) =
     after [Log INFO (msg_timer_fired (general_name (good p)) (time_text (good p))),
            Sleep (latency_of conf u),
            Request p,
            Log INFO (msg_request_sent (general_name (good p)) (time_text (good p)))]
       (if (case res of None \<Rightarrow> False | Some r \<Rightarrow> result r)
        then on_success_cb status res else on_fail_cb status res)
   \<and> invocations (fst (exchange_begin conf p (recorder slot_on_success)
         (recorder slot_on_fail) u (Inr (status, res)))) =
       [if (case res of None \<Rightarrow> False | Some r \<Rightarrow> result r)
        then Invoked slot_on_success status res else Invoked slot_on_fail status res]"
  by (cases res)
     (simp_all add: exchange_begin_def after_def recorder_def invocations_def Let_def)

text \<open>
  C2. The claim is that the failure path tolerates a missing result. The code does not:
  for every status, \<^verbatim>\<open>_on_fail(status, None)\<close> and the \<^verbatim>\<open>on_fail\<close> of
  \<^verbatim>\<open>exchange_mode_simple\<close> raise \<^verbatim>\<open>AttributeError\<close> at \<^verbatim>\<open>result.plan\<close> before anything
  is logged, and a dispatch of the headless driver whose exchange call resolves to
  \<open>(status, None)\<close> ends with that exception.
\<close>

theorem on_fail_raises_on_missing_result:
  "on_fail status None = ([], Inl AttributeError)
   \<and> simple_on_fail status None = ([], Inl AttributeError)
   \<and> snd (exchange_begin conf_a plan_a simple_on_success simple_on_fail u
            (Inr (status, None))) = Inl AttributeError"
  by (simp add: on_fail_def simple_on_fail_def exchange_begin_def after_def Let_def)

text \<open>
  C4. For a jitter window \<open>(a, b)\<close> with \<open>a \<le> b\<close> in the configuration and a draw
  \<open>u\<close> of \<^verbatim>\<open>random()\<close> in the half-open unit interval, the second effect of
  \<^verbatim>\<open>exchange_begin\<close> is the sleep for the sampled latency, that latency lies between
  \<open>a\<close> and \<open>b\<close>, and it is \<open>a\<close> whenever \<open>a = b\<close>, whatever the draw. (Seconds are
  real numbers here.)
\<close>

theorem exchange_begin_latency_in_window:
  assumes "exchange_latency (preference conf) = (a, b)" and "a \<le> b"
    and "0 \<le> u" and "u < 1"
  shows "fst (exchange_begin conf p on_success_cb on_fail_cb u exchanged) ! 1 =
           Sleep (latency_of conf u)
         \<and> a \<le> latency_of conf u \<and> latency_of conf u \<le> b
         \<and> (a = b \<longrightarrow> latency_of conf u = a)"
proof -
  have lat: "latency_of conf u = a + (b - a) * u"
    using assms(1) by (simp add: latency_of_def uniform_def)
  have nonneg: "0 \<le> (b - a) * u"
    using assms(2,3) by simp
  have "(b - a) * u \<le> (b - a) * 1"
    using assms(2,4) by (intro mult_left_mono) simp_all
  then have upper: "a + (b - a) * u \<le> b"
    by simp
  have second: "fst (exchange_begin conf p on_success_cb on_fail_cb u exchanged) ! 1 =
      Sleep (latency_of conf u)"
    by (simp add: exchange_begin_def after_def Let_def split: sum.split option.split prod.split)
  show ?thesis
    using lat nonneg upper second by simp
qed

theorem exchange_begin_latency_in_window_witness:
  "exchange_latency (preference conf_a) = (1 / 2, 2)
   \<and> fst (exchange_begin conf_a plan_a simple_on_success simple_on_fail (1 / 3)
        (Inr (no_flags, Some result_ok))) ! 1 = Sleep 1
   \<and> latency_of conf_a (1 / 3) = 1
   \<and> exchange_latency (preference conf_b) = (5, 5)
   \<and> latency_of conf_b (2 / 3) = 5"
  using exchange_begin_latency_in_window [of conf_a "1 / 2" 2 "1 / 3" plan_a
      simple_on_success simple_on_fail "Inr (no_flags, Some result_ok)"]
    exchange_begin_latency_in_window [of conf_b 5 5 "2 / 3" plan_a
      simple_on_success simple_on_fail "Inr (no_flags, None)"]
  by (simp add: conf_a_def conf_b_def latency_of_def uniform_def)

text \<open>
  C10. \<^verbatim>\<open>on_success\<close> is only ever invoked with a result that is present and whose
  success flag is true: whatever the exchange call gives (a pair or an exception), every
  invocation that a recording \<^verbatim>\<open>on_success\<close> notes carries such a result. Hence the
  \<^verbatim>\<open>on_success\<close> of \<^verbatim>\<open>exchange_mode_simple\<close>, which reads \<^verbatim>\<open>result.plan\<close> without
  a check, does not raise in a dispatch.
\<close>

theorem on_success_only_with_successful_result:
  "(Invoked slot_on_success status res \<in>
      set (fst (exchange_begin conf p (recorder slot_on_success) (recorder slot_on_fail)
                  u exchanged))
    \<longrightarrow> (case res of None \<Rightarrow> False | Some r \<Rightarrow> result r))
   \<and> snd (exchange_begin conf p simple_on_success (recorder slot_on_fail) u
            (Inr (status, res))) = Inr ()"
proof -
  have recorded: "case res of None \<Rightarrow> False | Some r \<Rightarrow> result r"
    if "Invoked slot_on_success status res \<in>
      set (fst (exchange_begin conf p (recorder slot_on_success) (recorder slot_on_fail)
                  u exchanged))"
    using that
    by (auto simp add: exchange_begin_def after_def recorder_def Let_def
        split: sum.splits option.splits if_splits)
  have safe: "snd (exchange_begin conf p simple_on_success (recorder slot_on_fail) u
            (Inr (status, res))) = Inr ()"
    by (cases res)
       (simp_all add: exchange_begin_def after_def recorder_def simple_on_success_def Let_def)
  show ?thesis
    using recorded safe by blast
qed

theorem on_success_only_with_successful_result_witness:
  "Invoked slot_on_success no_flags (Some result_ok) \<in>
      set (fst (exchange_begin conf_a plan_a (recorder slot_on_success)
                  (recorder slot_on_fail) (1 / 3) (Inr (no_flags, Some result_ok))))
   \<and> result result_ok
   \<and> snd (exchange_begin conf_a plan_a simple_on_success (recorder slot_on_fail) (1 / 3)
            (Inr (no_flags, Some result_ok))) = Inr ()"
  using on_success_only_with_successful_result [of no_flags "Some result_ok" conf_a plan_a
      "1 / 3" "Inr (no_flags, Some result_ok)"]
  by (simp add: exchange_begin_def after_def recorder_def result_ok_def Let_def)

subsection \<open>The scheduler\<close>

text \<open>
  What \<^verbatim>\<open>get_scheduler\<close> registers, for every configuration under which it returns:
  the date jobs are one per configured plan, in the order of the plans, each bound to
  \<^verbatim>\<open>exchange_begin\<close> with its plan and the two callbacks; and a date job fires at the
  release timestamp shifted by the difference between the host's local UTC offset and
  that of the scheduler's time zone.
\<close>

lemma foldl_add_job:
  "jobs (foldl (\<lambda>s p. add_job s (mk p)) s0 ps) = jobs s0 @ map mk ps"
  by (induction ps arbitrary: s0) (simp_all add: add_job_def)

lemma foldl_add_job_zone:
  "scheduler_utcoffset (foldl (\<lambda>s p. add_job s (mk p)) s0 ps) = scheduler_utcoffset s0
   \<and> scheduler_timezone (foldl (\<lambda>s p. add_job s (mk p)) s0 ps) = scheduler_timezone s0"
  by (induction ps arbitrary: s0) (simp_all add: add_job_def)

lemma get_scheduler_jobs:
  assumes "get_scheduler host defaults conf on_success_cb on_fail_cb = Inr s"
  shows "date_jobs s = map (plan_job host on_success_cb on_fail_cb) (exchange_plans conf)"
    and "map (fire_time s) (date_jobs s) =
         map (\<lambda>p. Some (time (good p) + local_utcoffset host - scheduler_utcoffset s))
           (exchange_plans conf)"
    and "zone_utcoffset host (timezone_or_default defaults conf) = Some (scheduler_utcoffset s)"
proof -
  define mk where "mk = plan_job host on_success_cb on_fail_cb"
  obtain off where off: "zone_utcoffset host (timezone_or_default defaults conf) = Some off"
    using assms by (cases "zone_utcoffset host (timezone_or_default defaults conf)")
      (simp_all add: get_scheduler_def)
  define s0 where "s0 =
    \<lparr>scheduler_timezone = timezone_or_default defaults conf, scheduler_utcoffset = off,
     jobs = []\<rparr>"
  define s1 where "s1 =
    (if enable_connection_test (preference conf)
     then add_job s0 (Job job_connection_test
            (trigger_interval (interval_or_default defaults conf)))
     else s0)"
  have s: "s = foldl (\<lambda>s p. add_job s (mk p)) s1 (exchange_plans conf)"
    using assms off by (auto simp add: get_scheduler_def Let_def s1_def s0_def mk_def)
  have s1: "scheduler_utcoffset s1 = off" "date_jobs s1 = []"
    by (simp_all add: s1_def s0_def add_job_def date_jobs_def)
  have mk_date: "filter (\<lambda>j. case j of Job f (trigger_date d) \<Rightarrow> True
      | Job f (trigger_interval i) \<Rightarrow> False) (map mk ps) = map mk ps" for ps
    by (induction ps) (simp_all add: mk_def plan_job_def)
  show dj: "date_jobs s = map (plan_job host on_success_cb on_fail_cb) (exchange_plans conf)"
    using s1(2) mk_date
    by (simp add: s date_jobs_def foldl_add_job mk_def)
  show "zone_utcoffset host (timezone_or_default defaults conf) = Some (scheduler_utcoffset s)"
    using off s1(1) by (simp add: s foldl_add_job_zone)
  show "map (fire_time s) (date_jobs s) =
         map (\<lambda>p. Some (time (good p) + local_utcoffset host - scheduler_utcoffset s))
           (exchange_plans conf)"
    by (simp add: dj plan_job_def fire_time_def fromtimestamp_def)
qed

text \<open>
  C5. The claim is that the job of a plan fires at the plan's release timestamp. On a
  host whose local zone is UTC, with the time zone Asia/Shanghai configured, the job of a
  plan released at 1700000000 is registered with the naive run date 1700000000 (the
  host's local reading of the timestamp), which the scheduler reads in its own zone: the
  job fires at 1699971200, eight hours before the release. On a host whose local zone
  is China Standard Time the same job fires at 1700000000.
\<close>

theorem get_scheduler_fires_off_release_time:
  "(case get_scheduler host_utc defaults_a conf_a on_success_cb on_fail_cb of
      Inl err \<Rightarrow> False
    | Inr s \<Rightarrow>
        scheduler_timezone s = ''Asia/Shanghai''
        \<and> date_jobs s =
            [Job (job_exchange_begin plan_a on_success_cb on_fail_cb)
               (trigger_date 1700000000)]
        \<and> map (fire_time s) (date_jobs s) = [Some 1699971200])
   \<and> time (good plan_a) = 1700000000
   \<and> (case get_scheduler host_shanghai defaults_a conf_a on_success_cb on_fail_cb of
        Inl err \<Rightarrow> False
      | Inr s \<Rightarrow> map (fire_time s) (date_jobs s) = [Some 1700000000])"
  by (simp add: get_scheduler_def Let_def timezone_or_default_def interval_or_default_def
      conf_a_def defaults_a_def host_utc_def host_shanghai_def zones_def add_job_def
      plan_job_def fromtimestamp_def fire_time_def date_jobs_def plan_a_def)

subsection \<open>Configuration changes after the scheduler is built\<close>

lemma run_job_latency_only:
  assumes "exchange_latency (preference c1) = exchange_latency (preference c2)"
  shows "run_job c1 hostname u exchanged pinged j = run_job c2 hostname u exchanged pinged j"
proof -
  have "latency_of c1 u = latency_of c2 u"
    using assms by (simp add: latency_of_def)
  then have "exchange_begin c1 p s f u exchanged = exchange_begin c2 p s f u exchanged"
    for p s f
    by (simp add: exchange_begin_def)
  then show ?thesis
    by (simp add: run_job_def split: job.split job_func.split)
qed

text \<open>
  C6, the claim as stated fails: two runs build their scheduler under the same
  configuration \<open>conf_a\<close>; afterwards one still sees \<open>conf_a\<close> (latency window from
  1/2 to 2) and the other sees \<open>conf_b\<close> (window from 5 to 5). With the same random
  draw and the same answer of the exchange call, the first dispatch sleeps 1 second and
  the second 5 seconds.
\<close>

theorem dispatch_reads_latency_late_counterexample:
  "latency_of conf_a (1 / 3) = 1 \<and> latency_of conf_b (1 / 3) = 5
   \<and> dispatches host_utc defaults_a conf_a conf_a (recorder slot_on_success)
        (recorder slot_on_fail) (Some ''api-takumi.mihoyo.com'') (1 / 3)
        (Inr (no_flags, Some result_ok)) ping_None
     \<noteq> dispatches host_utc defaults_a conf_a conf_b (recorder slot_on_success)
        (recorder slot_on_fail) (Some ''api-takumi.mihoyo.com'') (1 / 3)
        (Inr (no_flags, Some result_ok)) ping_None"
  by (simp add: dispatches_def get_scheduler_def Let_def timezone_or_default_def
      interval_or_default_def conf_a_def conf_b_def defaults_a_def host_utc_def zones_def
      add_job_def plan_job_def run_job_def exchange_begin_def after_def recorder_def
      latency_of_def uniform_def result_ok_def)

text \<open>
  C6, amended. \<^verbatim>\<open>get_scheduler\<close> reads the time zone, the probe toggle and interval
  and the plan list when it builds the scheduler; \<^verbatim>\<open>exchange_begin\<close> reads the latency
  window from the global configuration when it runs. Two runs that share the
  configuration at build time behave identically in every dispatch if the latency
  windows visible after the build are the same; nothing else of the later configuration
  matters.
\<close>

theorem dispatches_depend_on_latency_at_dispatch_only:
  assumes "exchange_latency (preference conf_1) = exchange_latency (preference conf_2)"
  shows "dispatches host defaults conf_build conf_1 on_success_cb on_fail_cb hostname u
           exchanged pinged
         = dispatches host defaults conf_build conf_2 on_success_cb on_fail_cb hostname u
           exchanged pinged"
  using run_job_latency_only [OF assms]
  by (simp add: dispatches_def split: sum.split)

theorem dispatches_depend_on_latency_at_dispatch_only_witness:
  "exchange_latency (preference conf_a) = exchange_latency (preference conf_c)
   \<and> conf_a \<noteq> conf_c
   \<and> dispatches host_utc defaults_a conf_a conf_a simple_on_success simple_on_fail
        (Some ''api-takumi.mihoyo.com'') (1 / 3) (Inr (no_flags, Some result_ok)) ping_None
     = dispatches host_utc defaults_a conf_a conf_c simple_on_success simple_on_fail
        (Some ''api-takumi.mihoyo.com'') (1 / 3) (Inr (no_flags, Some result_ok)) ping_None"
  using dispatches_depend_on_latency_at_dispatch_only [of conf_a conf_c host_utc defaults_a
      conf_a simple_on_success simple_on_fail "Some ''api-takumi.mihoyo.com''" "1 / 3"
      "Inr (no_flags, Some result_ok)" ping_None]
  by (simp add: conf_a_def conf_c_def)

subsection \<open>The headless driver\<close>

text \<open>
  C7. With an empty plan list \<^verbatim>\<open>exchange_mode_simple\<close> adds the log sink, logs that
  there is no plan to run and returns: no scheduler is built, so no job is registered,
  and no callback is invoked.
\<close>

theorem exchange_mode_simple_without_plans:
  assumes "exchange_plans conf = []"
  shows "exchange_mode_simple host defaults conf interrupted =
           \<lparr>effects = [LoggerAdd, Log INFO msg_no_plans], built = None, ending = Returned\<rparr>
         \<and> invocations (effects (exchange_mode_simple host defaults conf interrupted)) = []"
  using assms by (simp add: exchange_mode_simple_def invocations_def)

theorem exchange_mode_simple_without_plans_witness:
  "exchange_plans conf_empty = []
   \<and> exchange_mode_simple host_utc defaults_a conf_empty False =
       \<lparr>effects = [LoggerAdd, Log INFO msg_no_plans], built = None, ending = Returned\<rparr>
   \<and> invocations (effects (exchange_mode_simple host_utc defaults_a conf_empty False)) = []"
  using exchange_mode_simple_without_plans [of conf_empty host_utc defaults_a False]
  by (simp add: conf_empty_def invocations_def)

subsection \<open>The connectivity prober\<close>

lemma round_half_even_close: "\<bar>of_int (round_half_even y) - y\<bar> \<le> 1 / 2"
proof -
  have "of_int \<lfloor>y\<rfloor> \<le> y" and "y < of_int \<lfloor>y\<rfloor> + 1"
    by linarith+
  then show ?thesis
    by (auto simp add: round_half_even_def Let_def)
qed

lemma py_round2_hundredths: "py_round2 ms * 100 = of_int (round_half_even (ms * 100))"
  by (simp add: py_round2_def)

lemma py_round2_close: "\<bar>py_round2 ms - ms\<bar> \<le> 1 / 200"
proof -
  have "\<bar>of_int (round_half_even (ms * 100)) - ms * 100\<bar> \<le> 1 / 2"
    by (rule round_half_even_close)
  then show ?thesis
    by (simp add: py_round2_def abs_le_iff field_simps)
qed

text \<open>
  C8. For every outcome of the ping, \<^verbatim>\<open>_connection_test\<close> returns normally after the
  ping and exactly one log line: timed out for \<^verbatim>\<open>None\<close>, failed for \<^verbatim>\<open>False\<close>, and
  otherwise the delay in milliseconds rounded to two decimal places, that is, to a whole
  number of hundredths at most half a hundredth away from the delay. (Milliseconds are
  real numbers here.)
\<close>

theorem connection_test_one_observation:
  "connection_test hostname pinged =
     ([Ping (str_of_hostname hostname),
       Log INFO
         (case pinged of
            ping_None \<Rightarrow> msg_ping_timeout (str_of_hostname hostname)
          | ping_False \<Rightarrow> msg_ping_failed (str_of_hostname hostname)
          | ping_ms ms \<Rightarrow> msg_ping_delay (str_of_hostname hostname) (py_round2 ms))],
      Inr ())
   \<and> length (observations (fst (connection_test hostname pinged))) = 1
   \<and> (\<exists>k::int. py_round2 x * 100 = of_int k)
   \<and> \<bar>py_round2 x - x\<bar> \<le> 1 / 200"
proof -
  have "\<exists>k::int. py_round2 x * 100 = of_int k"
    using py_round2_hundredths by blast
  then show ?thesis
    using py_round2_close [of x]
    by (cases pinged) (simp_all add: connection_test_def observations_def)
qed

subsection \<open>The interactive view\<close>

text \<open>
  C9. From the initial view (enter button shown, exit button hidden, the enter text
  displayed), pressing enter and then exit posts \<^verbatim>\<open>EnterExchangeMode\<close> and then
  \<^verbatim>\<open>ExitExchangeMode\<close> and nothing else, and the view is the initial view again; in
  between, the enter button is hidden, the exit button shown and the exit text displayed.
\<close>

theorem enter_then_exit_restores_view:
  "presses [Some ''button-exchange_mode-enter'', Some ''button-exchange_mode-exit'']
     initial_view = (initial_view, [EnterExchangeMode, ExitExchangeMode])
   \<and> on_button_pressed (Some ''button-exchange_mode-enter'') initial_view =
       (\<lparr>button_enter_shown = False, button_exit_shown = True, display_text = EXIT_TEXT\<rparr>,
        [EnterExchangeMode])
   \<and> button_enter_shown initial_view \<and> \<not> button_exit_shown initial_view
   \<and> display_text initial_view = ENTER_TEXT"
  by (simp add: on_button_pressed_def initial_view_def)

end
